theory Spec2Isabelle
  imports Main "HOL-Library.Word" "HOL-Library.AList"
begin

section \<open>The signing core of fast-jwt (src/crypto.js)\<close>

text \<open>
  The module exports \<open>base64UrlMatcher\<close>, \<open>base64UrlReplacer\<close>, \<open>createSignature\<close> and
  \<open>verifySignature\<close>. It calls Node's \<open>crypto\<close> module and the package
  \<open>ecdsa-sig-formatter\<close>; those calls are parameters of the model (the record
  \<open>runtime\<close>), and every call is logged, so that what the module does before, after or
  instead of a call can be stated.
\<close>

subsection \<open>JavaScript values\<close>

type_synonym byte = "8 word"
type_synonym bytes = "byte list"

text \<open>
  The values a caller can pass as a key. \<open>JNumber\<close> carries integer-valued numbers only;
  \<open>JObject\<close> is a plain object given by its own properties in insertion order.
\<close>

datatype js_value =
    JUndefined
  | JNull
  | JBool bool
  | JNumber int
  | JString string
  | JBuffer bytes
  | JObject "(string \<times> js_value) list"

fun typeof :: "js_value \<Rightarrow> string" where
  "typeof JUndefined = ''undefined''"
| "typeof JNull = ''object''"
| "typeof (JBool b) = ''boolean''"
| "typeof (JNumber n) = ''number''"
| "typeof (JString s) = ''string''"
| "typeof (JBuffer b) = ''object''"
| "typeof (JObject ps) = ''object''"

text \<open>\<open>v instanceof Buffer\<close>\<close>

fun instanceof_Buffer :: "js_value \<Rightarrow> bool" where
  "instanceof_Buffer (JBuffer b) = True"
| "instanceof_Buffer v = False"

text \<open>The truthiness test of \<open>&&\<close> and \<open>if\<close>.\<close>

fun truthy :: "js_value \<Rightarrow> bool" where
  "truthy JUndefined = False"
| "truthy JNull = False"
| "truthy (JBool b) = b"
| "truthy (JNumber n) = (n \<noteq> 0)"
| "truthy (JString s) = (s \<noteq> [])"
| "truthy (JBuffer b) = True"
| "truthy (JObject ps) = True"

subsection \<open>Errors\<close>

text \<open>
  Modelled from the spec: the module \<open>./error\<close> that defines \<open>TokenError\<close> and
  \<open>TokenError.codes\<close> is not among the sources. The source constructs
  \<open>new TokenError(code, message, {originalError})\<close> with the codes \<open>invalidKey\<close>,
  \<open>signError\<close> and \<open>verifyError\<close>; the spec's error taxonomy names two further kinds,
  \<open>UnsupportedAlgorithm\<close> and \<open>DecodeError\<close>, which the source never refers to.
\<close>

datatype error_code =
    invalidKey
  | signError
  | verifyError
  | unsupportedAlgorithm
  | decodeError

text \<open>
  What a \<open>throw\<close> can carry: a \<open>TokenError\<close> with its code, message and optional
  \<open>originalError\<close>, the \<open>TypeError\<close> of the language itself (a property read on
  \<open>null\<close>), or an error raised inside a native primitive.
\<close>

datatype js_error =
    TokenError error_code string "js_error option"
  | TypeError string
  | NativeError string

fun get_prop :: "js_value \<Rightarrow> string \<Rightarrow> js_error + js_value" where
  "get_prop JUndefined p = Inl (TypeError (''Cannot read property '' @ p @ '' of undefined''))"
| "get_prop JNull p = Inl (TypeError (''Cannot read property '' @ p @ '' of null''))"
| "get_prop (JObject ps) p = (case map_of ps p of Some v \<Rightarrow> Inr v | None \<Rightarrow> Inr JUndefined)"
| "get_prop v p = Inr JUndefined"

text \<open>The own properties copied by the spread \<open>{...v}\<close>.\<close>

fun spread :: "js_value \<Rightarrow> (string \<times> js_value) list" where
  "spread (JObject ps) = ps"
| "spread v = []"

subsection \<open>Node's constants and pure helpers\<close>

text \<open>The values of \<open>crypto.constants\<close> (those of OpenSSL).\<close>

definition RSA_PKCS1_PADDING :: js_value where
  "RSA_PKCS1_PADDING = JNumber 1"

definition RSA_PKCS1_PSS_PADDING :: js_value where
  "RSA_PKCS1_PSS_PADDING = JNumber 6"

definition RSA_PSS_SALTLEN_DIGEST :: js_value where
  "RSA_PSS_SALTLEN_DIGEST = JNumber (- 1)"

definition RSA_PSS_SALTLEN_MAX_SIGN :: js_value where
  "RSA_PSS_SALTLEN_MAX_SIGN = JNumber (- 2)"

definition RSA_PSS_SALTLEN_AUTO :: js_value where
  "RSA_PSS_SALTLEN_AUTO = JNumber (- 2)"

text \<open>
  \<open>Buffer.from(input, 'utf8')\<close>: a \<open>string\<close> of the model is the UTF-8 byte sequence of
  the JavaScript string.
\<close>

definition Buffer_from_utf8 :: "string \<Rightarrow> bytes" where
  "Buffer_from_utf8 s = map (\<lambda>c. of_nat (of_char c)) s"

text \<open>
  \<open>buf.toString('base64')\<close> and \<open>digest('base64')\<close>: the standard alphabet, three bytes to
  four characters, \<open>=\<close> padding.
\<close>

definition base64_alphabet :: string where
  "base64_alphabet = ''ABCDEFGHIJKLMNOPQRSTUVWXYZabcdefghijklmnopqrstuvwxyz0123456789+/''"

definition base64_char :: "nat \<Rightarrow> char" where
  "base64_char n = base64_alphabet ! n"

fun base64_encode :: "bytes \<Rightarrow> string" where
  "base64_encode [] = []"
| "base64_encode [a] =
     [base64_char (unat a div 4), base64_char (unat a mod 4 * 16), CHR ''='', CHR ''='']"
| "base64_encode [a, b] =
     [base64_char (unat a div 4), base64_char (unat a mod 4 * 16 + unat b div 16),
      base64_char (unat b mod 16 * 4), CHR ''='']"
| "base64_encode (a # b # c # rest) =
     [base64_char (unat a div 4), base64_char (unat a mod 4 * 16 + unat b div 16),
      base64_char (unat b mod 16 * 4 + unat c div 64), base64_char (unat c mod 64)]
     @ base64_encode rest"

text \<open>
  \<open>Buffer.from(signature, 'base64')\<close>. Node's decoder never throws on a string: it reads
  both the standard and the URL-safe alphabet, skips every other character, stops at
  the first \<open>=\<close>, and drops a final lone character.
\<close>

fun index_of :: "char \<Rightarrow> string \<Rightarrow> nat \<Rightarrow> nat option" where
  "index_of c [] i = None"
| "index_of c (d # ds) i = (if c = d then Some i else index_of c ds (Suc i))"

definition unbase64 :: "char \<Rightarrow> nat option" where
  "unbase64 c =
     (if c = CHR ''-'' then Some 62 else if c = CHR ''_'' then Some 63
      else index_of c base64_alphabet 0)"

fun base64_sextets :: "string \<Rightarrow> nat list" where
  "base64_sextets [] = []"
| "base64_sextets (c # cs) =
     (case unbase64 c of
        Some v \<Rightarrow> v # base64_sextets cs
      | None \<Rightarrow> if c = CHR ''='' then [] else base64_sextets cs)"

fun base64_decode_groups :: "nat list \<Rightarrow> bytes" where
  "base64_decode_groups (s0 # s1 # s2 # s3 # rest) =
     [of_nat (s0 * 4 + s1 div 16), of_nat (s1 mod 16 * 16 + s2 div 4),
      of_nat (s2 mod 4 * 64 + s3)] @ base64_decode_groups rest"
| "base64_decode_groups [s0, s1, s2] =
     [of_nat (s0 * 4 + s1 div 16), of_nat (s1 mod 16 * 16 + s2 div 4)]"
| "base64_decode_groups [s0, s1] = [of_nat (s0 * 4 + s1 div 16)]"
| "base64_decode_groups [s0] = []"
| "base64_decode_groups [] = []"

definition Buffer_from_base64 :: "string \<Rightarrow> bytes" where
  "Buffer_from_base64 s = base64_decode_groups (base64_sextets s)"

text \<open>
  \<open>crypto.timingSafeEqual(a, b)\<close>: throws when the lengths differ, compares otherwise.
\<close>

definition timingSafeEqual :: "bytes \<Rightarrow> bytes \<Rightarrow> js_error + bool" where
  "timingSafeEqual a b =
     (if length a \<noteq> length b then Inl (NativeError ''Input buffers must have the same byte length'')
      else Inr (a = b))"

subsection \<open>The transport codec\<close>

text \<open>\<open>const base64UrlMatcher = /[=+/]/g\<close>: the characters the regular expression matches.\<close>

definition base64UrlMatcher :: "char \<Rightarrow> bool" where
  "base64UrlMatcher c = (c = CHR ''='' \<or> c = CHR ''+'' \<or> c = CHR ''/'')"

definition encoderMap :: "(char \<times> string) list" where
  "encoderMap = [(CHR ''='', ''''), (CHR ''+'', ''-''), (CHR ''/'', ''_'')]"

text \<open>
  \<open>function base64UrlReplacer(c) { return encoderMap[c] }\<close>; a missing entry is
  \<open>undefined\<close>, which \<open>replace\<close> inserts as the text \<open>undefined\<close>.
\<close>

definition base64UrlReplacer :: "char \<Rightarrow> string" where
  "base64UrlReplacer c = (case map_of encoderMap c of Some r \<Rightarrow> r | None \<Rightarrow> ''undefined'')"

text \<open>\<open>s.replace(base64UrlMatcher, base64UrlReplacer)\<close>\<close>

definition replace_base64Url :: "string \<Rightarrow> string" where
  "replace_base64Url s =
     concat (map (\<lambda>c. if base64UrlMatcher c then base64UrlReplacer c else [c]) s)"

text \<open>
  The two directions as the module composes them:
  \<open>bytes.toString('base64').replace(base64UrlMatcher, base64UrlReplacer)\<close> when signing,
  \<open>Buffer.from(signature, 'base64')\<close> when verifying.
\<close>

definition toUrlSafe :: "bytes \<Rightarrow> string" where
  "toUrlSafe bs = replace_base64Url (base64_encode bs)"

definition fromUrlSafe :: "string \<Rightarrow> bytes" where
  "fromUrlSafe s = Buffer_from_base64 s"

text \<open>
  The encoding in the spec's words: standard base64, then \<open>=\<close> removed, \<open>+\<close> replaced by
  \<open>-\<close> and \<open>/\<close> by \<open>_\<close>.
\<close>

definition spec_toUrlSafe :: "bytes \<Rightarrow> string" where
  "spec_toUrlSafe bs =
     map (\<lambda>c. if c = CHR ''+'' then CHR ''-'' else if c = CHR ''/'' then CHR ''_'' else c)
       (filter (\<lambda>c. c \<noteq> CHR ''='') (base64_encode bs))"

subsection \<open>Native calls and their log\<close>

text \<open>
  The primitives the module imports. \<open>createHmac rt alg key input\<close> is
  \<open>createHmac(alg, key).update(input).digest()\<close>; \<open>createSign rt name input options\<close> is
  \<open>createSign(name).update(input).sign(options)\<close>, the signature bytes;
  \<open>createVerify rt name input options signature\<close> is
  \<open>createVerify(name).update(input).verify(options, signature)\<close>. \<open>directSign\<close> and
  \<open>directVerify\<close> are \<open>None\<close> on a runtime where \<open>crypto.sign\<close> and \<open>crypto.verify\<close> are
  not functions. \<open>derToJose rt signature algorithm\<close> takes the base64 text of the DER
  signature and gives the bytes of the fixed-width signature, and \<open>joseToDer\<close> goes back.
  (The package returns these bytes as URL-safe base64 text, which \<open>toString\<close> leaves
  as it is; the module's \<open>.toString('base64').replace(...)\<close> gives the same text for
  the bytes and for that text.) An options object is the list of its properties.
  A runtime fixes what the primitives answer during one run: a randomised signer is one
  such function for each run.
\<close>

record runtime =
  createHmac :: "string \<Rightarrow> js_value \<Rightarrow> string \<Rightarrow> js_error + bytes"
  directSign :: "(bytes \<Rightarrow> js_value \<Rightarrow> js_error + bytes) option"
  directVerify :: "(bytes \<Rightarrow> js_value \<Rightarrow> bytes \<Rightarrow> js_error + bool) option"
  createSign :: "string \<Rightarrow> string \<Rightarrow> (string \<times> js_value) list \<Rightarrow> js_error + bytes"
  createVerify ::
    "string \<Rightarrow> string \<Rightarrow> (string \<times> js_value) list \<Rightarrow> bytes \<Rightarrow> js_error + bool"
  derToJose :: "string \<Rightarrow> string \<Rightarrow> js_error + bytes"
  joseToDer :: "bytes \<Rightarrow> string \<Rightarrow> js_error + bytes"

datatype event =
    ValidateSecretOrPublicKey js_value
  | ValidatePrivateKey js_value
  | CreateHmac string js_value string
  | TimingSafeEqual bytes bytes
  | DirectSign bytes js_value
  | DirectVerify bytes js_value bytes
  | CreateSign string string "(string \<times> js_value) list"
  | CreateVerify string string "(string \<times> js_value) list" bytes
  | DerToJose string string
  | JoseToDer bytes string

fun is_validation :: "event \<Rightarrow> bool" where
  "is_validation (ValidateSecretOrPublicKey k) = True"
| "is_validation (ValidatePrivateKey k) = True"
| "is_validation ev = False"

text \<open>
  A computation gives the log of what it called, in order, and either the error it
  threw or its value.
\<close>

type_synonym 'a eff = "event list \<times> (js_error + 'a)"

definition eff_return :: "'a \<Rightarrow> 'a eff" where
  "eff_return x = ([], Inr x)"

definition eff_throw :: "js_error \<Rightarrow> 'a eff" where
  "eff_throw e = ([], Inl e)"

definition eff_call :: "event \<Rightarrow> js_error + 'a \<Rightarrow> 'a eff" where
  "eff_call ev r = ([ev], r)"

definition eff_bind :: "'a eff \<Rightarrow> ('a \<Rightarrow> 'b eff) \<Rightarrow> 'b eff" where
  "eff_bind m f =
     (case m of
        (t, Inl e) \<Rightarrow> (t, Inl e)
      | (t, Inr x) \<Rightarrow> (case f x of (t', r) \<Rightarrow> (t @ t', r)))"

text \<open>\<open>try { m } catch (e) { h e }\<close>\<close>

definition eff_catch :: "'a eff \<Rightarrow> (js_error \<Rightarrow> 'a eff) \<Rightarrow> 'a eff" where
  "eff_catch m h =
     (case m of
        (t, Inl e) \<Rightarrow> (case h e of (t', r) \<Rightarrow> (t @ t', r))
      | (t, Inr x) \<Rightarrow> (t, Inr x))"

subsection \<open>Key validation\<close>

definition validateSecretOrPublicKey :: "string \<Rightarrow> js_value \<Rightarrow> string \<Rightarrow> js_error + unit" where
  "validateSecretOrPublicKey algorithm key message =
     (if instanceof_Buffer key \<or> typeof key = ''string'' then Inr ()
      else Inl (TokenError invalidKey message None))"

definition validatePrivateKey :: "string \<Rightarrow> js_value \<Rightarrow> js_error + js_value" where
  "validatePrivateKey algorithm key =
     (let keyType = typeof key in
      if instanceof_Buffer key \<or> keyType = ''string'' then Inr (JObject [(''key'', key)])
      else if keyType \<noteq> ''object'' then
        Inl (TokenError invalidKey
          (''The key for algorithm '' @ algorithm @
           '' must be a string, a object or a buffer containing the private key.'') None)
      else
        case get_prop key ''key'' of
          Inl e \<Rightarrow> Inl e
        | Inr k \<Rightarrow>
            if typeof k \<noteq> ''string'' \<and> \<not> instanceof_Buffer k then
              Inl (TokenError invalidKey
                (''The key object for algorithm '' @ algorithm @
                 '' must have the key property as string or buffer containing the private key.'')
                None)
            else
              case get_prop key ''passphrase'' of
                Inl e \<Rightarrow> Inl e
              | Inr p \<Rightarrow>
                  if truthy p \<and> typeof p \<noteq> ''string'' \<and> \<not> instanceof_Buffer p then
                    Inl (TokenError invalidKey
                      (''The key object for algorithm '' @ algorithm @
                       '' must have the passphrase property as string or buffer containing the private key.'')
                      None)
                  else Inr key)"

subsection \<open>createSignature\<close>

definition createSignature :: "runtime \<Rightarrow> string \<Rightarrow> js_value \<Rightarrow> string \<Rightarrow> string eff" where
  "createSignature rt algorithm key input =
     eff_catch
       (let type = take 2 algorithm;
            alg = ''SHA'' @ drop 2 algorithm
        in
          if type = ''HS'' then
            eff_bind
              (eff_call (ValidateSecretOrPublicKey key)
                 (validateSecretOrPublicKey algorithm key
                    (''The secret for algorithm '' @ algorithm @ '' must be a string or a buffer.'')))
              (\<lambda>_. eff_bind
                 (eff_call (CreateHmac alg key input) (createHmac rt alg key input))
                 (\<lambda>mac. eff_return (replace_base64Url (base64_encode mac))))
          else if type = ''Ed'' then
            (case directSign rt of
               Some sign \<Rightarrow>
                 eff_bind
                   (eff_call (ValidatePrivateKey key) (validatePrivateKey algorithm key))
                   (\<lambda>_. eff_bind
                      (eff_call (DirectSign (Buffer_from_utf8 input) key)
                         (sign (Buffer_from_utf8 input) key))
                      (\<lambda>sig. eff_return (replace_base64Url (base64_encode sig))))
             | None \<Rightarrow>
                 eff_throw (TokenError signError
                   ''EdDSA algorithms are not supported by your Node.js version.'' None))
          else
            eff_bind
              (eff_call (ValidatePrivateKey key) (validatePrivateKey algorithm key))
              (\<lambda>validated.
                 let options =
                       AList.update ''saltLength'' RSA_PSS_SALTLEN_MAX_SIGN
                         (AList.update ''padding'' RSA_PKCS1_PADDING (spread validated));
                     options =
                       (if type = ''PS'' then
                          AList.update ''saltLength'' RSA_PSS_SALTLEN_DIGEST
                            (AList.update ''padding'' RSA_PKCS1_PSS_PADDING options)
                        else options)
                 in
                   eff_bind
                     (eff_call (CreateSign (''RSA-'' @ alg) input options)
                        (createSign rt (''RSA-'' @ alg) input options))
                     (\<lambda>sig.
                        let signature = base64_encode sig in
                          eff_bind
                            (if type = ''ES'' then
                               eff_bind
                                 (eff_call (DerToJose signature algorithm)
                                    (derToJose rt signature algorithm))
                                 (\<lambda>jose. eff_return (base64_encode jose))
                             else eff_return signature)
                            (\<lambda>signature. eff_return (replace_base64Url signature)))))
       (\<lambda>e. eff_throw (TokenError signError ''Cannot create the signature.'' (Some e)))"

subsection \<open>verifySignature\<close>

definition verifySignature ::
    "runtime \<Rightarrow> string \<Rightarrow> js_value \<Rightarrow> string \<Rightarrow> string \<Rightarrow> bool eff" where
  "verifySignature rt algorithm key input signature =
     eff_catch
       (let type = take 2 algorithm;
            alg = ''SHA'' @ drop 2 algorithm;
            signature = Buffer_from_base64 signature
        in
          if type = ''HS'' then
            eff_bind
              (eff_call (ValidateSecretOrPublicKey key)
                 (validateSecretOrPublicKey algorithm key
                    (''The secret for algorithm '' @ algorithm @ '' must be a string or a buffer.'')))
              (\<lambda>_. eff_catch
                 (eff_bind
                    (eff_call (CreateHmac alg key input) (createHmac rt alg key input))
                    (\<lambda>mac. eff_call (TimingSafeEqual mac signature) (timingSafeEqual mac signature)))
                 (\<lambda>e. eff_return False))
          else if type = ''Ed'' then
            (case directVerify rt of
               Some verify \<Rightarrow>
                 eff_call (DirectVerify (Buffer_from_utf8 input) key signature)
                   (verify (Buffer_from_utf8 input) key signature)
             | None \<Rightarrow>
                 eff_throw (TokenError signError
                   ''EdDSA algorithms are not supported by your Node.js version.'' None))
          else
            (let options =
                   [(''key'', key), (''padding'', RSA_PKCS1_PADDING),
                    (''saltLength'', RSA_PSS_SALTLEN_AUTO)]
             in
               eff_bind
                 (eff_call (ValidateSecretOrPublicKey key)
                    (validateSecretOrPublicKey algorithm key
                       (''The key for algorithm '' @ algorithm @
                        '' must be a string, a object or a buffer containing the public key.'')))
                 (\<lambda>_. eff_bind
                    (if type = ''PS'' then
                       eff_return
                         (AList.update ''saltLength'' RSA_PSS_SALTLEN_DIGEST
                            (AList.update ''padding'' RSA_PKCS1_PSS_PADDING options),
                          signature)
                     else if type = ''ES'' then
                       eff_bind
                         (eff_call (JoseToDer signature algorithm)
                            (joseToDer rt signature algorithm))
                         (\<lambda>der. eff_return (options, der))
                     else eff_return (options, signature))
                    (\<lambda>(options, signature).
                       eff_call (CreateVerify (''RSA-'' @ alg) input options signature)
                         (createVerify rt (''RSA-'' @ alg) input options signature)))))
       (\<lambda>e. eff_throw (TokenError verifyError ''Cannot verify the signature.'' (Some e)))"

subsection \<open>Auxiliary definitions for the proofs\<close>

text \<open>
  The check made for each of the 64 sextets: its character, after the replacement, is one
  character that the decoder reads back as the same sextet.
\<close>

definition sextet_ok :: "nat \<Rightarrow> bool" where
  "sextet_ok n = (case replace_base64Url [base64_char n] of
      [c] \<Rightarrow> unbase64 c = Some n | _ \<Rightarrow> False)"

subsection \<open>A test double for the native primitives\<close>

text \<open>
  The digest Node returns for \<open>createHmac('SHA256', 'secret').update('test').digest()\<close>.
\<close>

definition hmac_sha256_secret_test :: bytes where
  "hmac_sha256_secret_test =
     [3, 41, 160, 107, 98, 205, 22, 179, 62, 182, 121, 43, 232, 198, 11, 21,
      141, 137, 162, 238, 58, 135, 111, 206, 154, 136, 30, 187, 72, 140, 9, 20]"

text \<open>
  A runtime used to run the module on concrete inputs. Its HMAC answers the one recorded
  call and throws otherwise; its signers are deterministic stand-ins that ignore the key
  (the signature is a tag of the digest name and the message), its verifiers accept
  exactly what the signers produce, and its format converters keep the bytes.
\<close>

definition stub_runtime :: runtime where
  "stub_runtime =
     \<lparr> createHmac = (\<lambda>alg key input.
         if alg = ''SHA256'' \<and> key = JString ''secret'' \<and> input = ''test''
         then Inr hmac_sha256_secret_test else Inl (NativeError ''no recorded digest'')),
       directSign = Some (\<lambda>message key. Inr (69 # message)),
       directVerify = Some (\<lambda>message key signature. Inr (signature = 69 # message)),
       createSign = (\<lambda>name input options. Inr (Buffer_from_utf8 (name @ input))),
       createVerify = (\<lambda>name input options signature.
         Inr (signature = Buffer_from_utf8 (name @ input))),
       derToJose = (\<lambda>signature algorithm. Inr (Buffer_from_base64 signature)),
       joseToDer = (\<lambda>signature algorithm. Inr signature) \<rparr>"

text \<open>The same runtime on a Node version without \<open>crypto.sign\<close> and \<open>crypto.verify\<close>.\<close>

definition stub_runtime_no_eddsa :: runtime where
  "stub_runtime_no_eddsa = stub_runtime \<lparr> directSign := None, directVerify := None \<rparr>"

subsection \<open>Reading the log\<close>

text \<open>
  What the runtime answers to a logged comparison or verification call; other events
  have no verdict.
\<close>

fun native_verdict :: "runtime \<Rightarrow> event \<Rightarrow> (js_error + bool) option" where
  "native_verdict rt (TimingSafeEqual a b) = Some (timingSafeEqual a b)"
| "native_verdict rt (DirectVerify message key signature) =
     (case directVerify rt of Some verify \<Rightarrow> Some (verify message key signature) | None \<Rightarrow> None)"
| "native_verdict rt (CreateVerify name input options signature) =
     Some (createVerify rt name input options signature)"
| "native_verdict rt ev = None"

text \<open>The verdict of the last call of a log.\<close>

definition last_verdict :: "runtime \<Rightarrow> event list \<Rightarrow> (js_error + bool) option" where
  "last_verdict rt t = (case rev t of [] \<Rightarrow> None | ev # _ \<Rightarrow> native_verdict rt ev)"

subsection \<open>Matching keys\<close>

text \<open>
  What it means for \<open>verifyKey\<close> to be the verification key of \<open>signKey\<close> on a runtime,
  for one identifier and message. HMAC: the two are the same secret. EdDSA: the native
  verifier accepts, under \<open>verifyKey\<close>, every signature the native signer returns under
  \<open>signKey\<close>. The other families: \<open>verifyKey\<close> is a string or a buffer, and the native
  verifier accepts under it every signature the native signer returns under the
  validated \<open>signKey\<close>, for the same digest name, padding and salt length; for ECDSA the
  signature first goes through \<open>derToJose\<close> and back through \<open>joseToDer\<close>.
\<close>

definition native_accepts :: "runtime \<Rightarrow> string \<Rightarrow> js_value \<Rightarrow> js_value \<Rightarrow> string \<Rightarrow> bool" where
  "native_accepts rt algorithm signKey verifyKey input =
     (let type = take 2 algorithm;
          name = ''RSA-SHA'' @ drop 2 algorithm;
          message = Buffer_from_utf8 input
      in
        if type = ''HS'' then verifyKey = signKey
        else if type = ''Ed'' then
          (\<forall>sign \<sigma>. directSign rt = Some sign \<and> sign message signKey = Inr \<sigma> \<longrightarrow>
             (\<exists>verify. directVerify rt = Some verify \<and> verify message verifyKey \<sigma> = Inr True))
        else
          (instanceof_Buffer verifyKey \<or> typeof verifyKey = ''string'') \<and>
          (\<forall>validated padding saltLength \<sigma>.
             validatePrivateKey algorithm signKey = Inr validated \<and>
             createSign rt name input
               (AList.update ''saltLength'' saltLength
                  (AList.update ''padding'' padding (spread validated))) = Inr \<sigma> \<longrightarrow>
             (if type = ''ES'' then
                (\<forall>jose. derToJose rt (base64_encode \<sigma>) algorithm = Inr jose \<longrightarrow>
                   (\<exists>der. joseToDer rt jose algorithm = Inr der \<and>
                      createVerify rt name input
                        [(''key'', verifyKey), (''padding'', padding), (''saltLength'', saltLength)]
                        der = Inr True))
              else
                createVerify rt name input
                  [(''key'', verifyKey), (''padding'', padding), (''saltLength'', saltLength)]
                  \<sigma> = Inr True)))"


section \<open>Properties\<close>

subsection \<open>Arithmetic of the sextets\<close>

lemma div_join: "b < n \<Longrightarrow> (a * n + b) div n = (a::nat)"
  by simp

lemma mod_join: "b < n \<Longrightarrow> (a * n + b) mod n = (b::nat)"
  by simp

lemma unat_byte_less: "unat (a :: byte) < 256"
  using unsigned_less [of a, where ?'a = nat] by simp

lemma unat_byte_bounds:
  fixes a :: byte
  shows "unat a div 4 < 64" "unat a mod 4 * 16 < 64" "unat a mod 16 * 4 < 64"
    "unat a mod 64 < 64" "unat a div 16 < 16" "unat a div 64 < 4"
  using unat_byte_less [of a] by simp_all

lemma sextet_sum_bounds:
  fixes a b :: byte
  shows "unat a mod 4 * 16 + unat b div 16 < 64" "unat a mod 16 * 4 + unat b div 64 < 64"
proof -
  have "unat a mod 4 < 4" by simp
  then have "unat a mod 4 * 16 \<le> 48" by linarith
  then show "unat a mod 4 * 16 + unat b div 16 < 64"
    using unat_byte_bounds(5) [of b] by linarith
  have "unat a mod 16 < 16" by simp
  then have "unat a mod 16 * 4 \<le> 60" by linarith
  then show "unat a mod 16 * 4 + unat b div 64 < 64"
    using unat_byte_bounds(6) [of b] by linarith
qed

lemma byte_of_sextets:
  fixes a b c :: byte
  shows "of_nat (unat a div 4 * 4 + (unat a mod 4 * 16 + unat b div 16) div 16) = a"
    and "of_nat (unat a div 4 * 4 + (unat a mod 4 * 16) div 16) = a"
    and "of_nat ((unat a mod 4 * 16 + unat b div 16) mod 16 * 16
           + (unat b mod 16 * 4 + unat c div 64) div 4) = b"
    and "of_nat ((unat a mod 4 * 16 + unat b div 16) mod 16 * 16 + (unat b mod 16 * 4) div 4) = b"
    and "of_nat ((unat b mod 16 * 4 + unat c div 64) mod 4 * 64 + unat c mod 64) = c"
  using unat_byte_bounds(5) [of b] unat_byte_bounds(6) [of c]
  by (simp_all add: div_join mod_join)

subsection \<open>The codec\<close>

lemma sextet_ok_all: "list_all sextet_ok [0..<64]"
  by code_simp

lemma sextets_char:
  assumes "n < 64"
  shows "base64_sextets (replace_base64Url (base64_char n # cs)) =
    n # base64_sextets (replace_base64Url cs)"
proof -
  from assms sextet_ok_all have "sextet_ok n"
    by (simp add: list_all_iff)
  then obtain c where c: "replace_base64Url [base64_char n] = [c]" "unbase64 c = Some n"
    by (auto simp: sextet_ok_def split: list.splits)
  have "replace_base64Url (base64_char n # cs) = c # replace_base64Url cs"
    using c(1) by (simp add: replace_base64Url_def)
  then show ?thesis using c(2) by simp
qed

lemma replace_pad: "replace_base64Url (CHR ''='' # cs) = replace_base64Url cs"
  by (simp add: replace_base64Url_def base64UrlMatcher_def base64UrlReplacer_def encoderMap_def)

lemma replace_Nil: "replace_base64Url [] = []"
  by (simp add: replace_base64Url_def)

lemma sextets_toUrlSafe_3:
  "base64_sextets (replace_base64Url (base64_encode (a # b # c # rest))) =
     [unat a div 4, unat a mod 4 * 16 + unat b div 16,
      unat b mod 16 * 4 + unat c div 64, unat c mod 64]
     @ base64_sextets (replace_base64Url (base64_encode rest))"
  by (simp add: sextets_char unat_byte_bounds sextet_sum_bounds)

lemma Buffer_from_base64_toUrlSafe: "Buffer_from_base64 (toUrlSafe bs) = bs"
  unfolding Buffer_from_base64_def toUrlSafe_def
proof (induction bs rule: base64_encode.induct)
  case 1
  show ?case by (simp add: replace_Nil)
next
  case (2 a)
  show ?case
    by (simp add: sextets_char unat_byte_bounds replace_pad replace_Nil byte_of_sextets)
next
  case (3 a b)
  show ?case
    by (simp add: sextets_char unat_byte_bounds sextet_sum_bounds replace_pad replace_Nil
        byte_of_sextets)
next
  case (4 a b c rest)
  then show ?case
    by (simp only: sextets_toUrlSafe_3 append_Cons append_Nil base64_decode_groups.simps
        byte_of_sextets)
qed

lemma replace_is_spec:
  "replace_base64Url s =
    map (\<lambda>c. if c = CHR ''+'' then CHR ''-'' else if c = CHR ''/'' then CHR ''_'' else c)
       (filter (\<lambda>c. c \<noteq> CHR ''='') s)"
  by (induction s)
    (simp_all add: replace_base64Url_def base64UrlMatcher_def base64UrlReplacer_def encoderMap_def)

text \<open>
  C8: the URL-safe encoding the module produces is the standard base64 text with \<open>=\<close>
  removed, \<open>+\<close> replaced by \<open>-\<close> and \<open>/\<close> by \<open>_\<close>; both directions are total
  functions (there is no error result), and decoding the encoding of any byte sequence,
  whatever its length modulo 3, gives the byte sequence back.
\<close>

theorem transport_codec_roundtrip:
  "toUrlSafe bs = spec_toUrlSafe bs \<and> fromUrlSafe (toUrlSafe bs) = bs"
  by (simp add: fromUrlSafe_def Buffer_from_base64_toUrlSafe)
    (simp add: toUrlSafe_def spec_toUrlSafe_def replace_is_spec)

theorem transport_codec_roundtrip_witness:
  "toUrlSafe [251, 255, 254, 1] = ''-__-AQ'' \<and> fromUrlSafe ''-__-AQ'' = [251, 255, 254, 1]"
proof -
  have enc: "toUrlSafe [251, 255, 254, 1] = ''-__-AQ''"
    by code_simp
  from transport_codec_roundtrip [of "[251, 255, 254, 1]"]
  have "fromUrlSafe (toUrlSafe [251, 255, 254, 1]) = [251, 255, 254, 1]"
    by (rule conjunct2)
  with enc show ?thesis by simp
qed

subsection \<open>Unfolding the computations and the test double\<close>

lemmas eff_defs = eff_return_def eff_throw_def eff_call_def eff_bind_def eff_catch_def

lemma stub_runtime_simps:
  "createHmac stub_runtime = (\<lambda>alg key input.
         if alg = ''SHA256'' \<and> key = JString ''secret'' \<and> input = ''test''
         then Inr hmac_sha256_secret_test else Inl (NativeError ''no recorded digest''))"
  "directSign stub_runtime = Some (\<lambda>message key. Inr (69 # message))"
  "directVerify stub_runtime = Some (\<lambda>message key signature. Inr (signature = 69 # message))"
  "createSign stub_runtime = (\<lambda>name input options. Inr (Buffer_from_utf8 (name @ input)))"
  "createVerify stub_runtime = (\<lambda>name input options signature.
         Inr (signature = Buffer_from_utf8 (name @ input)))"
  "derToJose stub_runtime = (\<lambda>signature algorithm. Inr (Buffer_from_base64 signature))"
  "joseToDer stub_runtime = (\<lambda>signature algorithm. Inr signature)"
  by (simp_all add: stub_runtime_def)

lemma stub_runtime_no_eddsa_simps:
  "directSign stub_runtime_no_eddsa = None"
  "directVerify stub_runtime_no_eddsa = None"
  by (simp_all add: stub_runtime_no_eddsa_def)

lemmas const_defs = RSA_PKCS1_PADDING_def RSA_PKCS1_PSS_PADDING_def RSA_PSS_SALTLEN_DIGEST_def
  RSA_PSS_SALTLEN_MAX_SIGN_def RSA_PSS_SALTLEN_AUTO_def

subsection \<open>Key validation\<close>

text \<open>
  C10: in a key object whose \<open>key\<close> property is a string or a buffer, a \<open>passphrase\<close>
  property that is present but falsy (the empty string, 0, \<open>null\<close>, ...) is not type-checked
  and the object is accepted; a truthy passphrase is accepted exactly when it is a string
  or a buffer.
\<close>

theorem validatePrivateKey_passphrase:
  assumes "map_of ps ''key'' = Some k"
    and "typeof k = ''string'' \<or> instanceof_Buffer k"
    and "map_of ps ''passphrase'' = Some p"
  shows "(\<not> truthy p \<longrightarrow> validatePrivateKey algorithm (JObject ps) = Inr (JObject ps)) \<and>
    (truthy p \<longrightarrow>
      (validatePrivateKey algorithm (JObject ps) = Inr (JObject ps)) =
      (typeof p = ''string'' \<or> instanceof_Buffer p)) \<and>
    \<not> truthy (JString []) \<and> \<not> truthy (JNumber 0) \<and> \<not> truthy JNull"
  using assms by (auto simp: validatePrivateKey_def)

theorem validatePrivateKey_passphrase_witness:
  "validatePrivateKey ''RS256'' (JObject [(''key'', JString ''pem''), (''passphrase'', JNumber 0)])
     = Inr (JObject [(''key'', JString ''pem''), (''passphrase'', JNumber 0)]) \<and>
   validatePrivateKey ''RS256'' (JObject [(''key'', JString ''pem''), (''passphrase'', JNumber 7)])
     \<noteq> Inr (JObject [(''key'', JString ''pem''), (''passphrase'', JNumber 7)])"
  using validatePrivateKey_passphrase [of "[(''key'', JString ''pem''), (''passphrase'', JNumber 0)]"
      "JString ''pem''" "JNumber 0" "''RS256''"]
    validatePrivateKey_passphrase [of "[(''key'', JString ''pem''), (''passphrase'', JNumber 7)]"
      "JString ''pem''" "JNumber 7" "''RS256''"]
  by simp

subsection \<open>Dispatch on the identifier\<close>

text \<open>
  C9: an identifier whose first two characters are none of \<open>HS\<close>, \<open>Ed\<close>, \<open>PS\<close>, \<open>ES\<close> is
  not rejected. \<open>createSignature\<close> validates the private key and calls the signer named
  \<open>RSA-SHA\<close> followed by the rest of the identifier, with PKCS#1 v1.5 padding;
  \<open>verifySignature\<close> validates the public key and calls the verifier of the same name with
  the same padding. The only errors are those of the key validation and of the native
  call, wrapped.
\<close>

theorem unknown_prefix_takes_rsa_pkcs1_path:
  assumes "take 2 algorithm \<notin> {''HS'', ''Ed'', ''PS'', ''ES''}"
  shows "createSignature rt algorithm key input =
      (case validatePrivateKey algorithm key of
         Inl e \<Rightarrow>
           ([ValidatePrivateKey key],
            Inl (TokenError signError ''Cannot create the signature.'' (Some e)))
       | Inr validated \<Rightarrow>
           ([ValidatePrivateKey key,
             CreateSign (''RSA-SHA'' @ drop 2 algorithm) input
               (AList.update ''saltLength'' RSA_PSS_SALTLEN_MAX_SIGN
                  (AList.update ''padding'' RSA_PKCS1_PADDING (spread validated)))],
            case createSign rt (''RSA-SHA'' @ drop 2 algorithm) input
                   (AList.update ''saltLength'' RSA_PSS_SALTLEN_MAX_SIGN
                      (AList.update ''padding'' RSA_PKCS1_PADDING (spread validated))) of
              Inl e \<Rightarrow> Inl (TokenError signError ''Cannot create the signature.'' (Some e))
            | Inr sig \<Rightarrow> Inr (toUrlSafe sig)))
    \<and> verifySignature rt algorithm key input signature =
      (if instanceof_Buffer key \<or> typeof key = ''string'' then
         ([ValidateSecretOrPublicKey key,
           CreateVerify (''RSA-SHA'' @ drop 2 algorithm) input
             [(''key'', key), (''padding'', RSA_PKCS1_PADDING),
              (''saltLength'', RSA_PSS_SALTLEN_AUTO)] (Buffer_from_base64 signature)],
          case createVerify rt (''RSA-SHA'' @ drop 2 algorithm) input
                 [(''key'', key), (''padding'', RSA_PKCS1_PADDING),
                  (''saltLength'', RSA_PSS_SALTLEN_AUTO)] (Buffer_from_base64 signature) of
            Inl e \<Rightarrow> Inl (TokenError verifyError ''Cannot verify the signature.'' (Some e))
          | Inr b \<Rightarrow> Inr b)
       else
         ([ValidateSecretOrPublicKey key],
          Inl (TokenError verifyError ''Cannot verify the signature.''
            (Some (TokenError invalidKey
              (''The key for algorithm '' @ algorithm @
               '' must be a string, a object or a buffer containing the public key.'') None)))))"
proof -
  from assms have t: "take 2 algorithm \<noteq> ''HS''" "take 2 algorithm \<noteq> ''Ed''"
    "take 2 algorithm \<noteq> ''PS''" "take 2 algorithm \<noteq> ''ES''"
    by simp_all
  show ?thesis
  proof (rule conjI)
    show "createSignature rt algorithm key input =
      (case validatePrivateKey algorithm key of
         Inl e \<Rightarrow>
           ([ValidatePrivateKey key],
            Inl (TokenError signError ''Cannot create the signature.'' (Some e)))
       | Inr validated \<Rightarrow>
           ([ValidatePrivateKey key,
             CreateSign (''RSA-SHA'' @ drop 2 algorithm) input
               (AList.update ''saltLength'' RSA_PSS_SALTLEN_MAX_SIGN
                  (AList.update ''padding'' RSA_PKCS1_PADDING (spread validated)))],
            case createSign rt (''RSA-SHA'' @ drop 2 algorithm) input
                   (AList.update ''saltLength'' RSA_PSS_SALTLEN_MAX_SIGN
                      (AList.update ''padding'' RSA_PKCS1_PADDING (spread validated))) of
              Inl e \<Rightarrow> Inl (TokenError signError ''Cannot create the signature.'' (Some e))
            | Inr sig \<Rightarrow> Inr (toUrlSafe sig)))"
      using t by (simp add: createSignature_def Let_def eff_defs toUrlSafe_def split: sum.splits)
  next
    show "verifySignature rt algorithm key input signature =
      (if instanceof_Buffer key \<or> typeof key = ''string'' then
         ([ValidateSecretOrPublicKey key,
           CreateVerify (''RSA-SHA'' @ drop 2 algorithm) input
             [(''key'', key), (''padding'', RSA_PKCS1_PADDING),
              (''saltLength'', RSA_PSS_SALTLEN_AUTO)] (Buffer_from_base64 signature)],
          case createVerify rt (''RSA-SHA'' @ drop 2 algorithm) input
                 [(''key'', key), (''padding'', RSA_PKCS1_PADDING),
                  (''saltLength'', RSA_PSS_SALTLEN_AUTO)] (Buffer_from_base64 signature) of
            Inl e \<Rightarrow> Inl (TokenError verifyError ''Cannot verify the signature.'' (Some e))
          | Inr b \<Rightarrow> Inr b)
       else
         ([ValidateSecretOrPublicKey key],
          Inl (TokenError verifyError ''Cannot verify the signature.''
            (Some (TokenError invalidKey
              (''The key for algorithm '' @ algorithm @
               '' must be a string, a object or a buffer containing the public key.'') None)))))"
      using t
      by (simp add: verifySignature_def Let_def eff_defs validateSecretOrPublicKey_def
          split: sum.splits)
  qed
qed


theorem unknown_prefix_takes_rsa_pkcs1_path_witness:
  "take 2 ''XY512'' \<notin> {''HS'', ''Ed'', ''PS'', ''ES''} \<and>
   createSignature stub_runtime ''XY512'' (JString ''pem'') ''test'' =
     ([ValidatePrivateKey (JString ''pem''),
       CreateSign ''RSA-SHA512'' ''test''
         [(''key'', JString ''pem''), (''padding'', JNumber 1), (''saltLength'', JNumber (- 2))]],
      Inr ''UlNBLVNIQTUxMnRlc3Q'') \<and>
   verifySignature stub_runtime ''XY512'' (JString ''pem'') ''test'' ''UlNBLVNIQTUxMnRlc3Q'' =
     ([ValidateSecretOrPublicKey (JString ''pem''),
       CreateVerify ''RSA-SHA512'' ''test''
         [(''key'', JString ''pem''), (''padding'', JNumber 1), (''saltLength'', JNumber (- 2))]
         [82, 83, 65, 45, 83, 72, 65, 53, 49, 50, 116, 101, 115, 116]],
      Inr True)"
proof -
  have h: "take 2 ''XY512'' \<notin> {''HS'', ''Ed'', ''PS'', ''ES''}"
    by simp
  have enc: "toUrlSafe [82, 83, 65, 45, 83, 72, 65, 53, 49, 50, 116, 101, 115, 116] =
      ''UlNBLVNIQTUxMnRlc3Q''"
    by code_simp
  have dec: "Buffer_from_base64 ''UlNBLVNIQTUxMnRlc3Q'' =
      [82, 83, 65, 45, 83, 72, 65, 53, 49, 50, 116, 101, 115, 116]"
    by code_simp
  have utf: "Buffer_from_utf8 ''RSA-SHA512test'' =
      [82, 83, 65, 45, 83, 72, 65, 53, 49, 50, 116, 101, 115, 116]"
    by code_simp
  from unknown_prefix_takes_rsa_pkcs1_path [OF h, of stub_runtime "JString ''pem''" "''test''"
      "''UlNBLVNIQTUxMnRlc3Q''"]
  show ?thesis
    using h by (simp add: validatePrivateKey_def stub_runtime_simps const_defs enc dec utf)
qed

subsection \<open>RSA-PSS verification\<close>

text \<open>
  C3, as stated, fails: for \<open>PS256\<close> the options handed to the native verifier carry the
  salt length \<open>RSA_PSS_SALTLEN_DIGEST\<close>, which is not \<open>RSA_PSS_SALTLEN_AUTO\<close>.
\<close>

theorem pss_verify_auto_salt_counterexample:
  "fst (verifySignature stub_runtime ''PS256'' (JString ''pem'') ''test'' ''AAAA'') =
     [ValidateSecretOrPublicKey (JString ''pem''),
      CreateVerify ''RSA-SHA256'' ''test''
        [(''key'', JString ''pem''), (''padding'', RSA_PKCS1_PSS_PADDING),
         (''saltLength'', RSA_PSS_SALTLEN_DIGEST)] [0, 0, 0]] \<and>
   RSA_PSS_SALTLEN_DIGEST \<noteq> RSA_PSS_SALTLEN_AUTO"
proof -
  have dec: "Buffer_from_base64 ''AAAA'' = [0, 0, 0]"
    by code_simp
  show ?thesis
    by (simp add: verifySignature_def Let_def eff_defs validateSecretOrPublicKey_def
        stub_runtime_simps const_defs dec)
qed

text \<open>
  C3, amended: for every identifier that starts with \<open>PS\<close> and every string or buffer key,
  \<open>verifySignature\<close> calls the native verifier with PSS padding and the salt length
  \<open>RSA_PSS_SALTLEN_DIGEST\<close> (the digest length, the value the signer uses), on the decoded
  signature, and returns its boolean or wraps its error; \<open>RSA_PSS_SALTLEN_AUTO\<close> is only the
  initial value of the options and is replaced on this path.
\<close>

theorem pss_verify_uses_digest_salt:
  assumes "take 2 algorithm = ''PS''"
    and "instanceof_Buffer key \<or> typeof key = ''string''"
  shows "verifySignature rt algorithm key input signature =
     ([ValidateSecretOrPublicKey key,
       CreateVerify (''RSA-SHA'' @ drop 2 algorithm) input
         [(''key'', key), (''padding'', RSA_PKCS1_PSS_PADDING),
          (''saltLength'', RSA_PSS_SALTLEN_DIGEST)] (Buffer_from_base64 signature)],
      case createVerify rt (''RSA-SHA'' @ drop 2 algorithm) input
             [(''key'', key), (''padding'', RSA_PKCS1_PSS_PADDING),
              (''saltLength'', RSA_PSS_SALTLEN_DIGEST)] (Buffer_from_base64 signature) of
        Inl e \<Rightarrow> Inl (TokenError verifyError ''Cannot verify the signature.'' (Some e))
      | Inr b \<Rightarrow> Inr b)"
  using assms
  by (simp add: verifySignature_def Let_def eff_defs validateSecretOrPublicKey_def
      split: sum.splits)

theorem pss_verify_uses_digest_salt_witness:
  "take 2 ''PS384'' = ''PS'' \<and>
   verifySignature stub_runtime ''PS384'' (JBuffer [1, 2]) ''test'' ''AAAA'' =
     ([ValidateSecretOrPublicKey (JBuffer [1, 2]),
       CreateVerify ''RSA-SHA384'' ''test''
         [(''key'', JBuffer [1, 2]), (''padding'', JNumber 6), (''saltLength'', JNumber (- 1))]
         [0, 0, 0]],
      Inr False)"
proof -
  have dec: "Buffer_from_base64 ''AAAA'' = [0, 0, 0]"
    by code_simp
  have utf: "Buffer_from_utf8 ''RSA-SHA384test'' =
      [82, 83, 65, 45, 83, 72, 65, 51, 56, 52, 116, 101, 115, 116]"
    by code_simp
  from pss_verify_uses_digest_salt [of "''PS384''" "JBuffer [1, 2]" stub_runtime "''test''" "''AAAA''"]
  show ?thesis
    by (simp add: stub_runtime_simps const_defs dec utf)
qed

subsection \<open>EdDSA on a runtime without native support\<close>

text \<open>
  C4, as stated, fails: on a runtime without \<open>crypto.sign\<close>, signing with \<open>EdDSA\<close> fails
  with a \<open>TokenError\<close> whose code is \<open>signError\<close>, wrapping a cause whose code is
  \<open>signError\<close> too; no error of another kind is raised.
\<close>

theorem eddsa_unsupported_kind_counterexample:
  "snd (createSignature stub_runtime_no_eddsa ''EdDSA'' (JString ''pem'') ''test'') =
     Inl (TokenError signError ''Cannot create the signature.''
       (Some (TokenError signError
         ''EdDSA algorithms are not supported by your Node.js version.'' None))) \<and>
   signError \<noteq> unsupportedAlgorithm"
  by (simp add: createSignature_def Let_def eff_defs stub_runtime_no_eddsa_simps)

text \<open>
  C4, amended: for every identifier that starts with \<open>Ed\<close>, on a runtime where neither
  \<open>crypto.sign\<close> nor \<open>crypto.verify\<close> is a function, \<open>createSignature\<close> fails with the
  \<open>signError\<close> \<open>TokenError\<close> and \<open>verifySignature\<close> with the \<open>verifyError\<close> one, each
  wrapping the cause \<open>EdDSA algorithms are not supported by your Node.js version.\<close>; the
  log is empty, so the failure comes before any key validation and any native call, and it
  is the same for every key.
\<close>

theorem eddsa_unsupported_fails_first:
  assumes "take 2 algorithm = ''Ed''"
    and "directSign rt = None" and "directVerify rt = None"
  shows "createSignature rt algorithm key input =
      ([], Inl (TokenError signError ''Cannot create the signature.''
        (Some (TokenError signError
          ''EdDSA algorithms are not supported by your Node.js version.'' None)))) \<and>
    (\<exists>code. verifySignature rt algorithm key input signature =
      ([], Inl (TokenError verifyError ''Cannot verify the signature.''
        (Some (TokenError code
          ''EdDSA algorithms are not supported by your Node.js version.'' None)))))"
  using assms
  by (simp add: createSignature_def verifySignature_def Let_def eff_defs)

theorem eddsa_unsupported_fails_first_witness:
  "take 2 ''EdDSA'' = ''Ed'' \<and> directSign stub_runtime_no_eddsa = None \<and>
   directVerify stub_runtime_no_eddsa = None \<and>
   createSignature stub_runtime_no_eddsa ''EdDSA'' (JNumber 3) ''test'' =
      ([], Inl (TokenError signError ''Cannot create the signature.''
        (Some (TokenError signError
          ''EdDSA algorithms are not supported by your Node.js version.'' None))))"
  using eddsa_unsupported_fails_first [of "''EdDSA''" stub_runtime_no_eddsa "JNumber 3" "''test''"]
  by (simp add: stub_runtime_no_eddsa_simps)

subsection \<open>Invalid keys\<close>

text \<open>
  C2, as stated, fails: the \<open>InvalidKey\<close> error of a key object without \<open>key\<close> property is
  not what \<open>createSignature\<close> throws; it throws the \<open>signError\<close> \<open>TokenError\<close> that wraps it.
\<close>

theorem invalid_key_not_wrapped_counterexample:
  "createSignature stub_runtime ''RS256'' (JObject [(''passphrase'', JString ''pw'')]) ''test'' =
     ([ValidatePrivateKey (JObject [(''passphrase'', JString ''pw'')])],
      Inl (TokenError signError ''Cannot create the signature.''
        (Some (TokenError invalidKey
          ''The key object for algorithm RS256 must have the key property as string or buffer containing the private key.''
          None)))) \<and>
   signError \<noteq> invalidKey"
  by (simp add: createSignature_def Let_def eff_defs validatePrivateKey_def)

lemma validatePrivateKey_not_object:
  assumes "typeof key \<noteq> ''string''" "typeof key \<noteq> ''object''"
  shows "validatePrivateKey algorithm key =
    Inl (TokenError invalidKey
      (''The key for algorithm '' @ algorithm @
       '' must be a string, a object or a buffer containing the private key.'') None)"
  using assms by (cases key) (simp_all add: validatePrivateKey_def)

lemma validatePrivateKey_bad_key_property:
  assumes "\<forall>k. map_of ps ''key'' = Some k \<longrightarrow> typeof k \<noteq> ''string'' \<and> \<not> instanceof_Buffer k"
  shows "validatePrivateKey algorithm (JObject ps) =
    Inl (TokenError invalidKey
      (''The key object for algorithm '' @ algorithm @
       '' must have the key property as string or buffer containing the private key.'') None)"
  using assms by (cases "map_of ps ''key''") (simp_all add: validatePrivateKey_def)

lemma validatePrivateKey_bad_passphrase:
  assumes "map_of ps ''key'' = Some k" "typeof k = ''string'' \<or> instanceof_Buffer k"
    and "map_of ps ''passphrase'' = Some p" "truthy p"
    and "typeof p \<noteq> ''string''" "\<not> instanceof_Buffer p"
  shows "validatePrivateKey algorithm (JObject ps) =
    Inl (TokenError invalidKey
      (''The key object for algorithm '' @ algorithm @
       '' must have the passphrase property as string or buffer containing the private key.'')
      None)"
  using assms by (auto simp: validatePrivateKey_def)

lemma sign_private_key_rejected:
  assumes "take 2 algorithm \<noteq> ''HS''"
    and "take 2 algorithm = ''Ed'' \<longrightarrow> directSign rt \<noteq> None"
    and "validatePrivateKey algorithm key = Inl e"
  shows "createSignature rt algorithm key input =
    ([ValidatePrivateKey key],
     Inl (TokenError signError ''Cannot create the signature.'' (Some e)))"
  using assms by (auto simp: createSignature_def Let_def eff_defs)

text \<open>
  C2, amended: a key whose shape is invalid for the algorithm family makes the operation
  fail with the \<open>signError\<close> (signing) or \<open>verifyError\<close> (verifying) \<open>TokenError\<close>
  whose \<open>originalError\<close> is the \<open>InvalidKey\<close> error naming what is wrong, and the log
  holds the validation only: no native primitive is called. The invalid shapes are: for
  HMAC, signing and verifying, a secret that is neither a string nor a buffer; for
  signing in every other family (EdDSA on a runtime that has \<open>crypto.sign\<close>), a key
  that is not a string, a buffer or an object, a key object whose \<open>key\<close> property is
  missing or neither a string nor a buffer, and a key object with a good \<open>key\<close> property
  whose truthy \<open>passphrase\<close> is neither a string nor a buffer; for verifying in every
  family but HMAC and EdDSA, a key that is neither a string nor a buffer.
\<close>

theorem invalid_key_is_wrapped:
  "(take 2 algorithm = ''HS'' \<and> \<not> instanceof_Buffer key \<and> typeof key \<noteq> ''string'' \<longrightarrow>
      createSignature rt algorithm key input =
        ([ValidateSecretOrPublicKey key],
         Inl (TokenError signError ''Cannot create the signature.''
           (Some (TokenError invalidKey
             (''The secret for algorithm '' @ algorithm @ '' must be a string or a buffer.'')
             None)))) \<and>
      verifySignature rt algorithm key input signature =
        ([ValidateSecretOrPublicKey key],
         Inl (TokenError verifyError ''Cannot verify the signature.''
           (Some (TokenError invalidKey
             (''The secret for algorithm '' @ algorithm @ '' must be a string or a buffer.'')
             None))))) \<and>
   (take 2 algorithm \<noteq> ''HS'' \<and> (take 2 algorithm = ''Ed'' \<longrightarrow> directSign rt \<noteq> None) \<and>
    typeof key \<noteq> ''string'' \<and> typeof key \<noteq> ''object'' \<longrightarrow>
      createSignature rt algorithm key input =
        ([ValidatePrivateKey key],
         Inl (TokenError signError ''Cannot create the signature.''
           (Some (TokenError invalidKey
             (''The key for algorithm '' @ algorithm @
              '' must be a string, a object or a buffer containing the private key.'')
             None))))) \<and>
   (take 2 algorithm \<noteq> ''HS'' \<and> (take 2 algorithm = ''Ed'' \<longrightarrow> directSign rt \<noteq> None) \<and>
    (\<forall>k. map_of ps ''key'' = Some k \<longrightarrow> typeof k \<noteq> ''string'' \<and> \<not> instanceof_Buffer k) \<longrightarrow>
      createSignature rt algorithm (JObject ps) input =
        ([ValidatePrivateKey (JObject ps)],
         Inl (TokenError signError ''Cannot create the signature.''
           (Some (TokenError invalidKey
             (''The key object for algorithm '' @ algorithm @
              '' must have the key property as string or buffer containing the private key.'')
             None))))) \<and>
   (take 2 algorithm \<noteq> ''HS'' \<and> (take 2 algorithm = ''Ed'' \<longrightarrow> directSign rt \<noteq> None) \<and>
    map_of qs ''key'' = Some k \<and> (typeof k = ''string'' \<or> instanceof_Buffer k) \<and>
    map_of qs ''passphrase'' = Some p \<and> truthy p \<and>
    typeof p \<noteq> ''string'' \<and> \<not> instanceof_Buffer p \<longrightarrow>
      createSignature rt algorithm (JObject qs) input =
        ([ValidatePrivateKey (JObject qs)],
         Inl (TokenError signError ''Cannot create the signature.''
           (Some (TokenError invalidKey
             (''The key object for algorithm '' @ algorithm @
              '' must have the passphrase property as string or buffer containing the private key.'')
             None))))) \<and>
   (take 2 algorithm \<noteq> ''HS'' \<and> take 2 algorithm \<noteq> ''Ed'' \<and>
    \<not> instanceof_Buffer key \<and> typeof key \<noteq> ''string'' \<longrightarrow>
      verifySignature rt algorithm key input signature =
        ([ValidateSecretOrPublicKey key],
         Inl (TokenError verifyError ''Cannot verify the signature.''
           (Some (TokenError invalidKey
             (''The key for algorithm '' @ algorithm @
              '' must be a string, a object or a buffer containing the public key.'')
             None)))))"
proof (intro conjI impI)
  assume "take 2 algorithm = ''HS'' \<and> \<not> instanceof_Buffer key \<and> typeof key \<noteq> ''string''"
  then show "createSignature rt algorithm key input =
        ([ValidateSecretOrPublicKey key],
         Inl (TokenError signError ''Cannot create the signature.''
           (Some (TokenError invalidKey
             (''The secret for algorithm '' @ algorithm @ '' must be a string or a buffer.'')
             None))))"
    by (simp add: createSignature_def Let_def eff_defs validateSecretOrPublicKey_def)
next
  assume "take 2 algorithm = ''HS'' \<and> \<not> instanceof_Buffer key \<and> typeof key \<noteq> ''string''"
  then show "verifySignature rt algorithm key input signature =
        ([ValidateSecretOrPublicKey key],
         Inl (TokenError verifyError ''Cannot verify the signature.''
           (Some (TokenError invalidKey
             (''The secret for algorithm '' @ algorithm @ '' must be a string or a buffer.'')
             None))))"
    by (simp add: verifySignature_def Let_def eff_defs validateSecretOrPublicKey_def)
next
  assume a: "take 2 algorithm \<noteq> ''HS'' \<and> (take 2 algorithm = ''Ed'' \<longrightarrow> directSign rt \<noteq> None) \<and>
    typeof key \<noteq> ''string'' \<and> typeof key \<noteq> ''object''"
  then have "validatePrivateKey algorithm key =
    Inl (TokenError invalidKey
      (''The key for algorithm '' @ algorithm @
       '' must be a string, a object or a buffer containing the private key.'') None)"
    by (simp add: validatePrivateKey_not_object)
  with a show "createSignature rt algorithm key input =
        ([ValidatePrivateKey key],
         Inl (TokenError signError ''Cannot create the signature.''
           (Some (TokenError invalidKey
             (''The key for algorithm '' @ algorithm @
              '' must be a string, a object or a buffer containing the private key.'')
             None))))"
    by (simp add: sign_private_key_rejected)
next
  assume a: "take 2 algorithm \<noteq> ''HS'' \<and> (take 2 algorithm = ''Ed'' \<longrightarrow> directSign rt \<noteq> None) \<and>
    (\<forall>k. map_of ps ''key'' = Some k \<longrightarrow> typeof k \<noteq> ''string'' \<and> \<not> instanceof_Buffer k)"
  then have "validatePrivateKey algorithm (JObject ps) =
    Inl (TokenError invalidKey
      (''The key object for algorithm '' @ algorithm @
       '' must have the key property as string or buffer containing the private key.'') None)"
    by (simp add: validatePrivateKey_bad_key_property)
  with a show "createSignature rt algorithm (JObject ps) input =
        ([ValidatePrivateKey (JObject ps)],
         Inl (TokenError signError ''Cannot create the signature.''
           (Some (TokenError invalidKey
             (''The key object for algorithm '' @ algorithm @
              '' must have the key property as string or buffer containing the private key.'')
             None))))"
    by (simp add: sign_private_key_rejected)
next
  assume a: "take 2 algorithm \<noteq> ''HS'' \<and> (take 2 algorithm = ''Ed'' \<longrightarrow> directSign rt \<noteq> None) \<and>
    map_of qs ''key'' = Some k \<and> (typeof k = ''string'' \<or> instanceof_Buffer k) \<and>
    map_of qs ''passphrase'' = Some p \<and> truthy p \<and>
    typeof p \<noteq> ''string'' \<and> \<not> instanceof_Buffer p"
  then have "validatePrivateKey algorithm (JObject qs) =
    Inl (TokenError invalidKey
      (''The key object for algorithm '' @ algorithm @
       '' must have the passphrase property as string or buffer containing the private key.'')
      None)"
    by (simp add: validatePrivateKey_bad_passphrase [of qs k p])
  with a show "createSignature rt algorithm (JObject qs) input =
        ([ValidatePrivateKey (JObject qs)],
         Inl (TokenError signError ''Cannot create the signature.''
           (Some (TokenError invalidKey
             (''The key object for algorithm '' @ algorithm @
              '' must have the passphrase property as string or buffer containing the private key.'')
             None))))"
    by (simp add: sign_private_key_rejected)
next
  assume "take 2 algorithm \<noteq> ''HS'' \<and> take 2 algorithm \<noteq> ''Ed'' \<and>
    \<not> instanceof_Buffer key \<and> typeof key \<noteq> ''string''"
  then show "verifySignature rt algorithm key input signature =
        ([ValidateSecretOrPublicKey key],
         Inl (TokenError verifyError ''Cannot verify the signature.''
           (Some (TokenError invalidKey
             (''The key for algorithm '' @ algorithm @
              '' must be a string, a object or a buffer containing the public key.'')
             None))))"
    by (simp add: verifySignature_def Let_def eff_defs validateSecretOrPublicKey_def)
qed

theorem invalid_key_is_wrapped_witness:
  "createSignature stub_runtime ''HS256'' (JNumber 3) ''test'' =
     ([ValidateSecretOrPublicKey (JNumber 3)],
      Inl (TokenError signError ''Cannot create the signature.''
        (Some (TokenError invalidKey
          ''The secret for algorithm HS256 must be a string or a buffer.'' None)))) \<and>
   verifySignature stub_runtime ''HS256'' (JNumber 3) ''test'' ''AAAA'' =
     ([ValidateSecretOrPublicKey (JNumber 3)],
      Inl (TokenError verifyError ''Cannot verify the signature.''
        (Some (TokenError invalidKey
          ''The secret for algorithm HS256 must be a string or a buffer.'' None)))) \<and>
   createSignature stub_runtime ''EdDSA'' (JBool True) ''test'' =
     ([ValidatePrivateKey (JBool True)],
      Inl (TokenError signError ''Cannot create the signature.''
        (Some (TokenError invalidKey
          ''The key for algorithm EdDSA must be a string, a object or a buffer containing the private key.''
          None)))) \<and>
   createSignature stub_runtime ''ES256'' (JObject [(''key'', JNumber 3)]) ''test'' =
     ([ValidatePrivateKey (JObject [(''key'', JNumber 3)])],
      Inl (TokenError signError ''Cannot create the signature.''
        (Some (TokenError invalidKey
          ''The key object for algorithm ES256 must have the key property as string or buffer containing the private key.''
          None)))) \<and>
   createSignature stub_runtime ''PS256''
       (JObject [(''key'', JString ''pem''), (''passphrase'', JNumber 7)]) ''test'' =
     ([ValidatePrivateKey (JObject [(''key'', JString ''pem''), (''passphrase'', JNumber 7)])],
      Inl (TokenError signError ''Cannot create the signature.''
        (Some (TokenError invalidKey
          ''The key object for algorithm PS256 must have the passphrase property as string or buffer containing the private key.''
          None)))) \<and>
   verifySignature stub_runtime ''ES256'' (JObject []) ''test'' ''AAAA'' =
     ([ValidateSecretOrPublicKey (JObject [])],
      Inl (TokenError verifyError ''Cannot verify the signature.''
        (Some (TokenError invalidKey
          ''The key for algorithm ES256 must be a string, a object or a buffer containing the public key.''
          None))))"
  using invalid_key_is_wrapped [of "''HS256''" "JNumber 3" stub_runtime "''test''" "''AAAA''"
      "[]" "[]" JNull JNull]
    invalid_key_is_wrapped [of "''EdDSA''" "JBool True" stub_runtime "''test''" "''AAAA''"
      "[]" "[]" JNull JNull]
    invalid_key_is_wrapped [of "''ES256''" "JObject []" stub_runtime "''test''" "''AAAA''"
      "[(''key'', JNumber 3)]" "[]" JNull JNull]
    invalid_key_is_wrapped [of "''PS256''" "JObject []" stub_runtime "''test''" "''AAAA''"
      "[]" "[(''key'', JString ''pem''), (''passphrase'', JNumber 7)]" "JString ''pem''" "JNumber 7"]
  by (simp add: stub_runtime_simps)

subsection \<open>What verification returns\<close>

lemma catch_wrap_result:
  "snd (eff_catch m (\<lambda>e. eff_throw (f e))) = Inl e \<Longrightarrow> \<exists>cause. e = f cause"
  by (cases m) (auto simp: eff_defs split: sum.splits)

lemma timingSafeEqual_result:
  "(case timingSafeEqual mac signature of Inl e \<Rightarrow> Inr False | Inr b \<Rightarrow> Inr b) =
     (Inr (mac = signature) :: js_error + bool)"
  by (auto simp: timingSafeEqual_def)

lemma verify_hmac_result:
  assumes "take 2 algorithm = ''HS''"
    and "instanceof_Buffer key \<or> typeof key = ''string''"
  shows "snd (verifySignature rt algorithm key input signature) =
     Inr (createHmac rt (''SHA'' @ drop 2 algorithm) key input = Inr (Buffer_from_base64 signature))"
  using assms
  by (cases "createHmac rt (''SHA'' @ drop 2 algorithm) key input")
    (auto simp: verifySignature_def Let_def eff_defs validateSecretOrPublicKey_def
      timingSafeEqual_def)

lemma verify_returns_last_verdict:
  assumes "instanceof_Buffer key \<or> typeof key = ''string''"
    and "last_verdict rt (fst (verifySignature rt algorithm key input signature)) = Some (Inr b)"
  shows "snd (verifySignature rt algorithm key input signature) = Inr b"
proof -
  consider (hs) "take 2 algorithm = ''HS''"
    | (ed) "take 2 algorithm \<noteq> ''HS''" "take 2 algorithm = ''Ed''"
    | (ps) "take 2 algorithm \<noteq> ''HS''" "take 2 algorithm \<noteq> ''Ed''" "take 2 algorithm = ''PS''"
    | (es) "take 2 algorithm \<noteq> ''HS''" "take 2 algorithm \<noteq> ''Ed''" "take 2 algorithm \<noteq> ''PS''"
        "take 2 algorithm = ''ES''"
    | (rs) "take 2 algorithm \<noteq> ''HS''" "take 2 algorithm \<noteq> ''Ed''" "take 2 algorithm \<noteq> ''PS''"
        "take 2 algorithm \<noteq> ''ES''"
    by blast
  then show ?thesis
  proof cases
    case hs
    with assms show ?thesis
      by (cases "createHmac rt (''SHA'' @ drop 2 algorithm) key input")
        (auto simp: verifySignature_def Let_def eff_defs validateSecretOrPublicKey_def
          last_verdict_def timingSafeEqual_def split: if_splits)
  next
    case ed
    with assms show ?thesis
      by (cases "directVerify rt")
        (auto simp: verifySignature_def Let_def eff_defs last_verdict_def split: sum.splits)
  next
    case ps
    with assms show ?thesis
      by (auto simp: verifySignature_def Let_def eff_defs validateSecretOrPublicKey_def
          last_verdict_def split: sum.splits)
  next
    case es
    with assms show ?thesis
      by (cases "joseToDer rt (Buffer_from_base64 signature) algorithm")
        (auto simp: verifySignature_def Let_def eff_defs validateSecretOrPublicKey_def
          last_verdict_def split: sum.splits)
  next
    case rs
    with assms show ?thesis
      by (auto simp: verifySignature_def Let_def eff_defs validateSecretOrPublicKey_def
          last_verdict_def split: sum.splits)
  qed
qed

text \<open>
  C5: with a string or buffer key, whenever the comparison or native verification that
  \<open>verifySignature\<close> ends with reports a mismatch (answers \<open>false\<close>), \<open>verifySignature\<close>
  returns \<open>false\<close> and throws nothing. In the HMAC family it returns a boolean in every
  case, \<open>true\<close> exactly when the digest is computed and equals the decoded signature; in
  particular an exception of \<open>timingSafeEqual\<close> gives \<open>false\<close>.
\<close>

theorem mismatch_returns_false:
  assumes "instanceof_Buffer key \<or> typeof key = ''string''"
  shows "(last_verdict rt (fst (verifySignature rt algorithm key input signature)) = Some (Inr False)
        \<longrightarrow> snd (verifySignature rt algorithm key input signature) = Inr False) \<and>
    (take 2 algorithm = ''HS'' \<longrightarrow>
       snd (verifySignature rt algorithm key input signature) =
         Inr (createHmac rt (''SHA'' @ drop 2 algorithm) key input =
              Inr (Buffer_from_base64 signature))) \<and>
    (take 2 algorithm = ''HS'' \<and>
     createHmac rt (''SHA'' @ drop 2 algorithm) key input = Inr mac \<and>
     timingSafeEqual mac (Buffer_from_base64 signature) = Inl e \<longrightarrow>
       snd (verifySignature rt algorithm key input signature) = Inr False)"
proof (intro conjI impI)
  assume "last_verdict rt (fst (verifySignature rt algorithm key input signature)) = Some (Inr False)"
  with assms show "snd (verifySignature rt algorithm key input signature) = Inr False"
    by (rule verify_returns_last_verdict)
next
  assume "take 2 algorithm = ''HS''"
  then show "snd (verifySignature rt algorithm key input signature) =
         Inr (createHmac rt (''SHA'' @ drop 2 algorithm) key input =
              Inr (Buffer_from_base64 signature))"
    using assms by (rule verify_hmac_result)
next
  assume a: "take 2 algorithm = ''HS'' \<and>
     createHmac rt (''SHA'' @ drop 2 algorithm) key input = Inr mac \<and>
     timingSafeEqual mac (Buffer_from_base64 signature) = Inl e"
  then have "mac \<noteq> Buffer_from_base64 signature"
    by (auto simp: timingSafeEqual_def split: if_splits)
  with a show "snd (verifySignature rt algorithm key input signature) = Inr False"
    using verify_hmac_result [OF _ assms, of algorithm rt input signature] by simp
qed

theorem mismatch_returns_false_witness:
  "(instanceof_Buffer (JString ''secret'') \<or> typeof (JString ''secret'') = ''string'') \<and>
   timingSafeEqual hmac_sha256_secret_test (Buffer_from_base64 ''AAAA'') =
     Inl (NativeError ''Input buffers must have the same byte length'') \<and>
   snd (verifySignature stub_runtime ''HS256'' (JString ''secret'') ''test'' ''AAAA'') = Inr False \<and>
   last_verdict stub_runtime
     (fst (verifySignature stub_runtime ''RS256'' (JString ''secret'') ''test'' ''AAAA'')) =
     Some (Inr False) \<and>
   snd (verifySignature stub_runtime ''RS256'' (JString ''secret'') ''test'' ''AAAA'') = Inr False"
proof -
  have utf: "Buffer_from_utf8 ''RSA-SHA256test'' =
      [82, 83, 65, 45, 83, 72, 65, 50, 53, 54, 116, 101, 115, 116]"
    by code_simp
  have dec: "Buffer_from_base64 ''AAAA'' = [0, 0, 0]"
    by code_simp
  have k: "instanceof_Buffer (JString ''secret'') \<or> typeof (JString ''secret'') = ''string''"
    by simp
  have t: "timingSafeEqual hmac_sha256_secret_test (Buffer_from_base64 ''AAAA'') =
     Inl (NativeError ''Input buffers must have the same byte length'')"
    by (simp add: timingSafeEqual_def dec hmac_sha256_secret_test_def)
  have p: "take 2 ''HS256'' = ''HS''"
    by simp
  have h: "createHmac stub_runtime (''SHA'' @ drop 2 ''HS256'') (JString ''secret'') ''test'' =
      Inr hmac_sha256_secret_test"
    by (simp add: stub_runtime_simps)
  from mismatch_returns_false [OF k, of stub_runtime "''HS256''" "''test''" "''AAAA''"
      hmac_sha256_secret_test "NativeError ''Input buffers must have the same byte length''"]
  have hs: "snd (verifySignature stub_runtime ''HS256'' (JString ''secret'') ''test'' ''AAAA'') =
      Inr False"
    using p h t by blast
  have l: "last_verdict stub_runtime
     (fst (verifySignature stub_runtime ''RS256'' (JString ''secret'') ''test'' ''AAAA'')) =
     Some (Inr False)"
    by (simp add: verifySignature_def Let_def eff_defs validateSecretOrPublicKey_def
        last_verdict_def stub_runtime_simps dec utf)
  from mismatch_returns_false [OF k, of stub_runtime "''RS256''" "''test''" "''AAAA''" "[]"
      "NativeError []"]
  have rs: "snd (verifySignature stub_runtime ''RS256'' (JString ''secret'') ''test'' ''AAAA'') =
      Inr False"
    using l by blast
  from k t hs l rs show ?thesis by blast
qed


subsection \<open>Malformed and corrupted signatures\<close>

text \<open>
  C6, as stated, fails on both counts, here for \<open>HS256\<close> with the secret \<open>secret\<close> and the
  message \<open>test\<close>, whose signature ends in \<open>Q\<close> (character code 81). A text that is not
  base64 at all, and a signature cut to a length of 41 characters, are decoded without an
  error and verification returns \<open>false\<close>. Changing the last character to \<open>S\<close> (code 83, one
  bit away) touches only bits the decoder drops, and verification returns \<open>true\<close>.
\<close>

theorem malformed_signature_counterexample:
  "snd (createSignature stub_runtime ''HS256'' (JString ''secret'') ''test'') =
     Inr ''Aymga2LNFrM-tnkr6MYLFY2Jou46h2_Omogeu0iMCRQ'' \<and>
   snd (verifySignature stub_runtime ''HS256'' (JString ''secret'') ''test'' ''!!!'') = Inr False \<and>
   snd (verifySignature stub_runtime ''HS256'' (JString ''secret'') ''test''
     ''Aymga2LNFrM-tnkr6MYLFY2Jou46h2_Omogeu0iMC'') = Inr False \<and>
   snd (verifySignature stub_runtime ''HS256'' (JString ''secret'') ''test''
     ''Aymga2LNFrM-tnkr6MYLFY2Jou46h2_Omogeu0iMCRS'') = Inr True \<and>
   (of_char CHR ''Q'' :: nat) = 81 \<and> (of_char CHR ''S'' :: nat) = 83"
proof -
  have enc: "replace_base64Url (base64_encode hmac_sha256_secret_test) =
      ''Aymga2LNFrM-tnkr6MYLFY2Jou46h2_Omogeu0iMCRQ''"
    by code_simp
  have dec1: "Buffer_from_base64 ''!!!'' \<noteq> hmac_sha256_secret_test"
    by code_simp
  have dec2: "Buffer_from_base64 ''Aymga2LNFrM-tnkr6MYLFY2Jou46h2_Omogeu0iMC'' \<noteq>
      hmac_sha256_secret_test"
    by code_simp
  have dec3: "Buffer_from_base64 ''Aymga2LNFrM-tnkr6MYLFY2Jou46h2_Omogeu0iMCRS'' =
      hmac_sha256_secret_test"
    by code_simp
  have k: "instanceof_Buffer (JString ''secret'') \<or> typeof (JString ''secret'') = ''string''"
    by simp
  have p: "take 2 ''HS256'' = ''HS''"
    by simp
  have s: "snd (createSignature stub_runtime ''HS256'' (JString ''secret'') ''test'') =
     Inr ''Aymga2LNFrM-tnkr6MYLFY2Jou46h2_Omogeu0iMCRQ''"
    by (simp add: createSignature_def Let_def eff_defs validateSecretOrPublicKey_def
        stub_runtime_simps enc)
  have v: "snd (verifySignature stub_runtime ''HS256'' (JString ''secret'') ''test'' signature) =
      Inr (hmac_sha256_secret_test = Buffer_from_base64 signature)" for signature
    using verify_hmac_result [OF p k, of stub_runtime "''test''" signature]
    by (simp add: stub_runtime_simps)
  from dec1 dec2 have "hmac_sha256_secret_test \<noteq> Buffer_from_base64 ''!!!''"
    "hmac_sha256_secret_test \<noteq> Buffer_from_base64 ''Aymga2LNFrM-tnkr6MYLFY2Jou46h2_Omogeu0iMC''"
    by (simp_all add: eq_commute [of hmac_sha256_secret_test])
  with s dec3 show ?thesis
    by (simp add: v)
qed

text \<open>
  C6, amended: \<open>verifySignature\<close> never fails with a \<open>DecodeError\<close>. The wire signature is
  decoded by \<open>Buffer.from(signature, 'base64')\<close>, which has no error result, so malformed
  base64 is decoded to whatever bytes its valid characters give; every error that
  \<open>verifySignature\<close> throws is the \<open>verifyError\<close> \<open>TokenError\<close> wrapping its cause. In the
  HMAC family with a string or buffer key it throws nothing and returns \<open>true\<close> exactly when
  the digest is computed and equals the decoded bytes: a corruption that changes the
  decoded bytes gives \<open>false\<close>, one that leaves them unchanged still gives \<open>true\<close>.
\<close>

theorem verify_decodes_leniently:
  "(snd (verifySignature rt algorithm key input signature) = Inl e \<longrightarrow>
      (\<exists>cause. e = TokenError verifyError ''Cannot verify the signature.'' (Some cause))) \<and>
   (take 2 algorithm = ''HS'' \<and> (instanceof_Buffer key \<or> typeof key = ''string'') \<longrightarrow>
      snd (verifySignature rt algorithm key input signature) =
        Inr (createHmac rt (''SHA'' @ drop 2 algorithm) key input =
             Inr (Buffer_from_base64 signature)))"
proof (intro conjI impI)
  assume "snd (verifySignature rt algorithm key input signature) = Inl e"
  then show "\<exists>cause. e = TokenError verifyError ''Cannot verify the signature.'' (Some cause)"
    unfolding verifySignature_def by (rule catch_wrap_result)
next
  assume "take 2 algorithm = ''HS'' \<and> (instanceof_Buffer key \<or> typeof key = ''string'')"
  then show "snd (verifySignature rt algorithm key input signature) =
        Inr (createHmac rt (''SHA'' @ drop 2 algorithm) key input =
             Inr (Buffer_from_base64 signature))"
    by (simp add: verify_hmac_result)
qed

theorem verify_decodes_leniently_witness:
  "take 2 ''HS256'' = ''HS'' \<and>
   (instanceof_Buffer (JString ''secret'') \<or> typeof (JString ''secret'') = ''string'') \<and>
   snd (verifySignature stub_runtime ''HS256'' (JString ''secret'') ''test'' ''!!!'') = Inr False \<and>
   snd (verifySignature stub_runtime ''HS256'' (JNumber 3) ''test'' ''!!!'') =
     Inl (TokenError verifyError ''Cannot verify the signature.''
       (Some (TokenError invalidKey
         ''The secret for algorithm HS256 must be a string or a buffer.'' None)))"
proof -
  have dec: "Buffer_from_base64 ''!!!'' = []"
    by code_simp
  have r: "snd (verifySignature stub_runtime ''HS256'' (JNumber 3) ''test'' ''!!!'') =
     Inl (TokenError verifyError ''Cannot verify the signature.''
       (Some (TokenError invalidKey
         ''The secret for algorithm HS256 must be a string or a buffer.'' None)))"
    by (simp add: verifySignature_def Let_def eff_defs validateSecretOrPublicKey_def)
  from verify_decodes_leniently [of stub_runtime "''HS256''" "JString ''secret''" "''test''" "''!!!''"
      "NativeError []"]
  have "snd (verifySignature stub_runtime ''HS256'' (JString ''secret'') ''test'' ''!!!'') = Inr False"
    by (simp add: stub_runtime_simps dec hmac_sha256_secret_test_def)
  with r show ?thesis
    using verify_decodes_leniently [of stub_runtime "''HS256''" "JNumber 3" "''test''" "''!!!''"
      "TokenError verifyError ''Cannot verify the signature.''
       (Some (TokenError invalidKey
         ''The secret for algorithm HS256 must be a string or a buffer.'' None))"]
    by simp
qed

subsection \<open>EdDSA verification\<close>

text \<open>
  C7: run on \<open>verifySignature('EdDSA', undefined, 'test', 'AAAA')\<close>, with \<open>crypto.verify\<close>
  available. The log holds the native call alone, made with the key \<open>undefined\<close>: no key
  validation comes before it. The native verifier gets the bytes of the message and the
  decoded signature, and its boolean is what is returned.
\<close>

theorem eddsa_verify_does_not_validate_key:
  "verifySignature stub_runtime ''EdDSA'' JUndefined ''test'' ''AAAA'' =
     ([DirectVerify [116, 101, 115, 116] JUndefined [0, 0, 0]], Inr False) \<and>
   verifySignature stub_runtime ''HS256'' JUndefined ''test'' ''AAAA'' =
     ([ValidateSecretOrPublicKey JUndefined],
      Inl (TokenError verifyError ''Cannot verify the signature.''
        (Some (TokenError invalidKey
          ''The secret for algorithm HS256 must be a string or a buffer.'' None)))) \<and>
   verifySignature stub_runtime ''ES256'' JUndefined ''test'' ''AAAA'' =
     ([ValidateSecretOrPublicKey JUndefined],
      Inl (TokenError verifyError ''Cannot verify the signature.''
        (Some (TokenError invalidKey
          ''The key for algorithm ES256 must be a string, a object or a buffer containing the public key.''
          None)))) \<and>
   createSignature stub_runtime ''EdDSA'' JUndefined ''test'' =
     ([ValidatePrivateKey JUndefined],
      Inl (TokenError signError ''Cannot create the signature.''
        (Some (TokenError invalidKey
          ''The key for algorithm EdDSA must be a string, a object or a buffer containing the private key.''
          None)))) \<and>
   \<not> list_ex is_validation
     (fst (verifySignature stub_runtime ''EdDSA'' JUndefined ''test'' ''AAAA''))"
proof -
  have dec: "Buffer_from_base64 ''AAAA'' = [0, 0, 0]"
    by code_simp
  have utf: "Buffer_from_utf8 ''test'' = [116, 101, 115, 116]"
    by code_simp
  show ?thesis
    by (simp add: verifySignature_def createSignature_def Let_def eff_defs
        validateSecretOrPublicKey_def validatePrivateKey_def stub_runtime_simps dec utf)
qed

subsection \<open>Signing, then verifying\<close>

lemma update_update_absorb:
  "k \<noteq> k' \<Longrightarrow>
    AList.update k' d (AList.update k p (AList.update k' m (AList.update k q al))) =
    AList.update k' d (AList.update k p al)"
  by (induction al) auto

lemma sign_hmac_result:
  assumes "take 2 algorithm = ''HS''"
    and "snd (createSignature rt algorithm key input) = Inr signature"
  shows "(instanceof_Buffer key \<or> typeof key = ''string'') \<and>
    (\<exists>mac. createHmac rt (''SHA'' @ drop 2 algorithm) key input = Inr mac \<and>
       signature = toUrlSafe mac)"
  using assms
  by (auto simp: createSignature_def Let_def eff_defs validateSecretOrPublicKey_def toUrlSafe_def
      split: sum.splits if_splits)

lemma sign_eddsa_result:
  assumes "take 2 algorithm = ''Ed''"
    and "snd (createSignature rt algorithm key input) = Inr signature"
  shows "\<exists>sign \<sigma>. directSign rt = Some sign \<and> sign (Buffer_from_utf8 input) key = Inr \<sigma> \<and>
    signature = toUrlSafe \<sigma>"
  using assms
  by (auto simp: createSignature_def Let_def eff_defs toUrlSafe_def
      split: sum.splits if_splits option.splits)

lemma sign_rsa_result:
  assumes "take 2 algorithm \<noteq> ''HS''" "take 2 algorithm \<noteq> ''Ed''"
    and "snd (createSignature rt algorithm key input) = Inr signature"
  shows "\<exists>validated \<sigma> padding saltLength.
    validatePrivateKey algorithm key = Inr validated \<and>
    createSign rt (''RSA-SHA'' @ drop 2 algorithm) input
      (AList.update ''saltLength'' saltLength
         (AList.update ''padding'' padding (spread validated))) = Inr \<sigma> \<and>
    (padding, saltLength) =
      (if take 2 algorithm = ''PS'' then (RSA_PKCS1_PSS_PADDING, RSA_PSS_SALTLEN_DIGEST)
       else (RSA_PKCS1_PADDING, RSA_PSS_SALTLEN_MAX_SIGN)) \<and>
    (if take 2 algorithm = ''ES'' then
       \<exists>jose. derToJose rt (base64_encode \<sigma>) algorithm = Inr jose \<and> signature = toUrlSafe jose
     else signature = toUrlSafe \<sigma>)"
proof (cases "take 2 algorithm = ''PS''")
  case True
  with assms show ?thesis
    by (auto simp: createSignature_def Let_def eff_defs toUrlSafe_def update_update_absorb
        split: sum.splits)
next
  case False
  with assms show ?thesis
    by (auto simp: createSignature_def Let_def eff_defs toUrlSafe_def
        split: sum.splits if_splits)
qed

lemma verify_rsa_unfolded:
  assumes "take 2 algorithm \<noteq> ''HS''" "take 2 algorithm \<noteq> ''Ed''"
    and "instanceof_Buffer key \<or> typeof key = ''string''"
  shows "snd (verifySignature rt algorithm key input signature) =
    (if take 2 algorithm = ''PS'' then
       (case createVerify rt (''RSA-SHA'' @ drop 2 algorithm) input
              [(''key'', key), (''padding'', RSA_PKCS1_PSS_PADDING),
               (''saltLength'', RSA_PSS_SALTLEN_DIGEST)] (Buffer_from_base64 signature) of
          Inl e \<Rightarrow> Inl (TokenError verifyError ''Cannot verify the signature.'' (Some e))
        | Inr b \<Rightarrow> Inr b)
     else if take 2 algorithm = ''ES'' then
       (case joseToDer rt (Buffer_from_base64 signature) algorithm of
          Inl e \<Rightarrow> Inl (TokenError verifyError ''Cannot verify the signature.'' (Some e))
        | Inr der \<Rightarrow>
            (case createVerify rt (''RSA-SHA'' @ drop 2 algorithm) input
                   [(''key'', key), (''padding'', RSA_PKCS1_PADDING),
                    (''saltLength'', RSA_PSS_SALTLEN_AUTO)] der of
               Inl e \<Rightarrow> Inl (TokenError verifyError ''Cannot verify the signature.'' (Some e))
             | Inr b \<Rightarrow> Inr b))
     else
       (case createVerify rt (''RSA-SHA'' @ drop 2 algorithm) input
              [(''key'', key), (''padding'', RSA_PKCS1_PADDING),
               (''saltLength'', RSA_PSS_SALTLEN_AUTO)] (Buffer_from_base64 signature) of
          Inl e \<Rightarrow> Inl (TokenError verifyError ''Cannot verify the signature.'' (Some e))
        | Inr b \<Rightarrow> Inr b))"
  using assms
  by (auto simp: verifySignature_def Let_def eff_defs validateSecretOrPublicKey_def
      split: sum.splits)

lemma if_third_branch: "(if P then x else if Q then y else z) \<Longrightarrow> \<not> P \<Longrightarrow> \<not> Q \<Longrightarrow> z"
  by simp

lemma native_accepts_rsa:
  assumes "take 2 algorithm \<noteq> ''HS''" "take 2 algorithm \<noteq> ''Ed''"
    and "native_accepts rt algorithm signKey verifyKey input"
  shows "(instanceof_Buffer verifyKey \<or> typeof verifyKey = ''string'') \<and>
    (\<forall>validated padding saltLength \<sigma>.
       validatePrivateKey algorithm signKey = Inr validated \<and>
       createSign rt (''RSA-SHA'' @ drop 2 algorithm) input
         (AList.update ''saltLength'' saltLength
            (AList.update ''padding'' padding (spread validated))) = Inr \<sigma> \<longrightarrow>
       (if take 2 algorithm = ''ES'' then
          (\<forall>jose. derToJose rt (base64_encode \<sigma>) algorithm = Inr jose \<longrightarrow>
             (\<exists>der. joseToDer rt jose algorithm = Inr der \<and>
                createVerify rt (''RSA-SHA'' @ drop 2 algorithm) input
                  [(''key'', verifyKey), (''padding'', padding), (''saltLength'', saltLength)]
                  der = Inr True))
        else
          createVerify rt (''RSA-SHA'' @ drop 2 algorithm) input
            [(''key'', verifyKey), (''padding'', padding), (''saltLength'', saltLength)]
            \<sigma> = Inr True))"
proof -
  from assms(3) have "if take 2 algorithm = ''HS'' then verifyKey = signKey
    else if take 2 algorithm = ''Ed'' then
      (\<forall>sign \<sigma>. directSign rt = Some sign \<and> sign (Buffer_from_utf8 input) signKey = Inr \<sigma> \<longrightarrow>
         (\<exists>verify. directVerify rt = Some verify \<and>
            verify (Buffer_from_utf8 input) verifyKey \<sigma> = Inr True))
    else ?thesis"
    unfolding native_accepts_def Let_def .
  then show ?thesis
    using assms(1,2) by (rule if_third_branch)
qed

text \<open>
  C1: for every identifier, message and pair of keys that match on the runtime (the same
  secret for HMAC; for the other families a signing key and a verification key such that
  the native verifier accepts what the native signer produces), every signature that
  \<open>createSignature\<close> returns is verified as \<open>true\<close> by \<open>verifySignature\<close>. The module
  contributes the agreement of the two dispatchers on digest name, padding and salt
  length, and the transport encoding and decoding of the signature.
\<close>

theorem sign_then_verify:
  assumes ok: "native_accepts rt algorithm signKey verifyKey input"
    and sign: "snd (createSignature rt algorithm signKey input) = Inr signature"
  shows "snd (verifySignature rt algorithm verifyKey input signature) = Inr True"
proof -
  consider (hs) "take 2 algorithm = ''HS''"
    | (ed) "take 2 algorithm \<noteq> ''HS''" "take 2 algorithm = ''Ed''"
    | (rsa) "take 2 algorithm \<noteq> ''HS''" "take 2 algorithm \<noteq> ''Ed''"
    by blast
  then show ?thesis
  proof cases
    case hs
    from ok hs have same: "verifyKey = signKey"
      by (simp add: native_accepts_def Let_def)
    from sign_hmac_result [OF hs sign] obtain mac where
      key: "instanceof_Buffer signKey \<or> typeof signKey = ''string''" and
      mac: "createHmac rt (''SHA'' @ drop 2 algorithm) signKey input = Inr mac" and
      sig: "signature = toUrlSafe mac"
      by blast
    from verify_hmac_result [OF hs key, of rt input signature] mac sig same show ?thesis
      by (simp add: Buffer_from_base64_toUrlSafe)
  next
    case ed
    from sign_eddsa_result [OF ed(2) sign] obtain sgn \<sigma> where
      s: "directSign rt = Some sgn" "sgn (Buffer_from_utf8 input) signKey = Inr \<sigma>" and
      sig: "signature = toUrlSafe \<sigma>"
      by blast
    from ok ed s obtain vfy where
      v: "directVerify rt = Some vfy" "vfy (Buffer_from_utf8 input) verifyKey \<sigma> = Inr True"
      by (auto simp: native_accepts_def Let_def)
    from ed v sig show ?thesis
      by (simp add: verifySignature_def Let_def eff_defs Buffer_from_base64_toUrlSafe)
  next
    case rsa
    from native_accepts_rsa [OF rsa ok]
    have key: "instanceof_Buffer verifyKey \<or> typeof verifyKey = ''string''"
      by (rule conjunct1)
    from sign_rsa_result [OF rsa sign] obtain validated \<sigma> padding saltLength where
      val: "validatePrivateKey algorithm signKey = Inr validated" and
      sg: "createSign rt (''RSA-SHA'' @ drop 2 algorithm) input
        (AList.update ''saltLength'' saltLength
           (AList.update ''padding'' padding (spread validated))) = Inr \<sigma>" and
      par: "(padding, saltLength) =
        (if take 2 algorithm = ''PS'' then (RSA_PKCS1_PSS_PADDING, RSA_PSS_SALTLEN_DIGEST)
         else (RSA_PKCS1_PADDING, RSA_PSS_SALTLEN_MAX_SIGN))" and
      sig: "if take 2 algorithm = ''ES'' then
         \<exists>jose. derToJose rt (base64_encode \<sigma>) algorithm = Inr jose \<and> signature = toUrlSafe jose
       else signature = toUrlSafe \<sigma>"
      by blast
    have acc:
      "if take 2 algorithm = ''ES'' then
         (\<forall>jose. derToJose rt (base64_encode \<sigma>) algorithm = Inr jose \<longrightarrow>
            (\<exists>der. joseToDer rt jose algorithm = Inr der \<and>
               createVerify rt (''RSA-SHA'' @ drop 2 algorithm) input
                 [(''key'', verifyKey), (''padding'', padding), (''saltLength'', saltLength)]
                 der = Inr True))
       else
         createVerify rt (''RSA-SHA'' @ drop 2 algorithm) input
           [(''key'', verifyKey), (''padding'', padding), (''saltLength'', saltLength)]
           \<sigma> = Inr True"
      using native_accepts_rsa [OF rsa ok] val sg by blast
    show ?thesis
    proof (cases "take 2 algorithm = ''ES''")
      case True
      with sig obtain jose where
        j: "derToJose rt (base64_encode \<sigma>) algorithm = Inr jose" "signature = toUrlSafe jose"
        by auto
      with acc True obtain der where
        d: "joseToDer rt jose algorithm = Inr der"
          "createVerify rt (''RSA-SHA'' @ drop 2 algorithm) input
             [(''key'', verifyKey), (''padding'', padding), (''saltLength'', saltLength)]
             der = Inr True"
        by auto
      from True par have "padding = RSA_PKCS1_PADDING" "saltLength = RSA_PSS_SALTLEN_AUTO"
        by (simp_all add: const_defs)
      with d j True show ?thesis
        by (simp add: verify_rsa_unfolded [OF rsa key] Buffer_from_base64_toUrlSafe)
    next
      case False
      with sig acc have
        s: "signature = toUrlSafe \<sigma>" and
        a: "createVerify rt (''RSA-SHA'' @ drop 2 algorithm) input
           [(''key'', verifyKey), (''padding'', padding), (''saltLength'', saltLength)]
           \<sigma> = Inr True"
        by simp_all
      show ?thesis
      proof (cases "take 2 algorithm = ''PS''")
        case True
        with par have "padding = RSA_PKCS1_PSS_PADDING" "saltLength = RSA_PSS_SALTLEN_DIGEST"
          by simp_all
        with a s True show ?thesis
          by (simp add: verify_rsa_unfolded [OF rsa key] Buffer_from_base64_toUrlSafe)
      next
        case ps: False
        with par have "padding = RSA_PKCS1_PADDING" "saltLength = RSA_PSS_SALTLEN_AUTO"
          by (simp_all add: const_defs)
        with a s False ps show ?thesis
          by (simp add: verify_rsa_unfolded [OF rsa key] Buffer_from_base64_toUrlSafe)
      qed
    qed
  qed
qed


theorem sign_then_verify_witness:
  "native_accepts stub_runtime ''HS256'' (JString ''secret'') (JString ''secret'') ''test'' \<and>
   snd (createSignature stub_runtime ''HS256'' (JString ''secret'') ''test'') =
     Inr ''Aymga2LNFrM-tnkr6MYLFY2Jou46h2_Omogeu0iMCRQ'' \<and>
   snd (verifySignature stub_runtime ''HS256'' (JString ''secret'') ''test''
     ''Aymga2LNFrM-tnkr6MYLFY2Jou46h2_Omogeu0iMCRQ'') = Inr True \<and>
   native_accepts stub_runtime ''ES256'' (JString ''pem'') (JString ''pub'') ''test'' \<and>
   snd (createSignature stub_runtime ''ES256'' (JString ''pem'') ''test'') =
     Inr ''UlNBLVNIQTI1NnRlc3Q'' \<and>
   snd (verifySignature stub_runtime ''ES256'' (JString ''pub'') ''test''
     ''UlNBLVNIQTI1NnRlc3Q'') = Inr True"
proof -
  have enc: "replace_base64Url (base64_encode hmac_sha256_secret_test) =
      ''Aymga2LNFrM-tnkr6MYLFY2Jou46h2_Omogeu0iMCRQ''"
    by code_simp
  have a1: "native_accepts stub_runtime ''HS256'' (JString ''secret'') (JString ''secret'') ''test''"
    by (simp add: native_accepts_def Let_def)
  have s1: "snd (createSignature stub_runtime ''HS256'' (JString ''secret'') ''test'') =
     Inr ''Aymga2LNFrM-tnkr6MYLFY2Jou46h2_Omogeu0iMCRQ''"
    by (simp add: createSignature_def Let_def eff_defs validateSecretOrPublicKey_def
        stub_runtime_simps enc)
  have utf: "Buffer_from_utf8 ''RSA-SHA256test'' =
      [82, 83, 65, 45, 83, 72, 65, 50, 53, 54, 116, 101, 115, 116]"
    by code_simp
  have b64: "base64_encode [82, 83, 65, 45, 83, 72, 65, 50, 53, 54, 116, 101, 115, 116] =
      ''UlNBLVNIQTI1NnRlc3Q=''"
    by code_simp
  have dec: "Buffer_from_base64 ''UlNBLVNIQTI1NnRlc3Q='' =
      [82, 83, 65, 45, 83, 72, 65, 50, 53, 54, 116, 101, 115, 116]"
    by code_simp
  have url: "replace_base64Url ''UlNBLVNIQTI1NnRlc3Q='' = ''UlNBLVNIQTI1NnRlc3Q''"
    by code_simp
  have a2: "native_accepts stub_runtime ''ES256'' (JString ''pem'') (JString ''pub'') ''test''"
    by (auto simp: native_accepts_def Let_def stub_runtime_simps utf b64 dec
        simp del: base64_encode.simps)
  have s2: "snd (createSignature stub_runtime ''ES256'' (JString ''pem'') ''test'') =
     Inr ''UlNBLVNIQTI1NnRlc3Q''"
    by (simp add: createSignature_def Let_def eff_defs validatePrivateKey_def
        stub_runtime_simps utf b64 dec url del: base64_encode.simps)
  from sign_then_verify [OF a1 s1] sign_then_verify [OF a2 s2] a1 s1 a2 s2
  show ?thesis by simp
qed

end
